theory Spec2Isabelle
  imports Complex_Main "HOL-Library.Word"
begin

section \<open>Python values and exceptions\<close>

text \<open>
  The exceptions that the modelled functions can raise. A function that may raise returns
  \<open>py_error + 'a\<close>, with \<open>Inl\<close> for the exception.
\<close>

datatype py_error =
    KeyError | DecodeError | EncodeError | ValueError | OverflowError
  | IndexError | CanError | ConnectionError

text \<open>
  A Python number is an unbounded \<open>int\<close> or a \<open>float\<close>. The type \<open>'f\<close> stands for
  the floats of the runtime; the two float operations that the controller uses
  (\<open>x * 10\<close> and \<open>int(x)\<close>, which raises on \<open>nan\<close> and \<open>inf\<close>) are taken as they are,
  in a record of operations.
\<close>

datatype 'f pynum = PyInt int | PyFloat 'f

record 'f float_ops =
  float_mul :: "'f \<Rightarrow> int \<Rightarrow> 'f"
  float_to_int :: "'f \<Rightarrow> py_error + int"

fun num_mul :: "'f float_ops \<Rightarrow> 'f pynum \<Rightarrow> int \<Rightarrow> 'f pynum" where
  "num_mul fp (PyInt a) k = PyInt (a * k)"
| "num_mul fp (PyFloat x) k = PyFloat (float_mul fp x k)"

fun int_of_num :: "'f float_ops \<Rightarrow> 'f pynum \<Rightarrow> py_error + int" where
  "int_of_num fp (PyInt a) = Inr a"
| "int_of_num fp (PyFloat x) = float_to_int fp x"

type_synonym 'f signals = "string \<rightharpoonup> 'f pynum"

type_synonym bytes = "8 word list"

section \<open>Python strings\<close>

text \<open>
  A \<open>str\<close> is a \<open>string\<close>; the model covers text of code points below 256. \<open>startswith s p\<close> is
  \<open>s.startswith(p)\<close> and \<open>py_in p s\<close> is \<open>p in s\<close>.
\<close>

definition startswith :: "string \<Rightarrow> string \<Rightarrow> bool" where
  "startswith s p = (take (length p) s = p)"

fun py_in :: "string \<Rightarrow> string \<Rightarrow> bool" where
  "py_in p [] = (p = [])"
| "py_in p (c # cs) = (startswith (c # cs) p \<or> py_in p cs)"

text \<open>\<open>str(i)\<close>, which is also how an f-string renders an integer.\<close>

definition digit_char :: "nat \<Rightarrow> char" where
  "digit_char d = ''0123456789'' ! d"

function str_nat :: "nat \<Rightarrow> string" where
  "str_nat n = (if n < 10 then [digit_char n] else str_nat (n div 10) @ [digit_char (n mod 10)])"
  by pat_completeness auto
termination
  by (relation "measure id") auto

declare str_nat.simps [simp del]

definition py_str :: "int \<Rightarrow> string" where
  "py_str i = (if i < 0 then CHR ''-'' # str_nat (nat (- i)) else str_nat (nat i))"

section \<open>The controller: dcdc_controller.py\<close>

datatype ConverterMode = CM_NOT_SET | BUS1_TO_BUS2 | BUS2_TO_BUS1 | BIDIRECTIONAL

fun ConverterMode_value :: "ConverterMode \<Rightarrow> int" where
  "ConverterMode_value CM_NOT_SET = 0"
| "ConverterMode_value BUS1_TO_BUS2 = 1"
| "ConverterMode_value BUS2_TO_BUS1 = 2"
| "ConverterMode_value BIDIRECTIONAL = 3"

datatype ControlType =
    NOT_SET | V_BUS2 | V_BUS1 | I_BUS2 | I_BUS1 | P_BUS2 | P_BUS1 | V_BUS2_ILIM | V_BUS1_ILIM

fun ControlType_value :: "ControlType \<Rightarrow> int" where
  "ControlType_value NOT_SET = 0"
| "ControlType_value V_BUS2 = 1"
| "ControlType_value V_BUS1 = 2"
| "ControlType_value I_BUS2 = 3"
| "ControlType_value I_BUS1 = 4"
| "ControlType_value P_BUS2 = 5"
| "ControlType_value P_BUS1 = 6"
| "ControlType_value V_BUS2_ILIM = 7"
| "ControlType_value V_BUS1_ILIM = 8"

text \<open>
  A message of the loaded database (cantools): its frame identifier, its name, and its
  codec, which belongs to the library and is taken as it is.
\<close>

record 'f db_message =
  frame_id :: nat
  name :: string
  encode :: "'f signals \<Rightarrow> py_error + bytes"
  decode :: "bytes \<Rightarrow> py_error + 'f signals"

record 'f database =
  by_name :: "string \<rightharpoonup> 'f db_message"
  by_frame_id :: "nat \<rightharpoonup> 'f db_message"

definition get_message_by_name :: "'f database \<Rightarrow> string \<Rightarrow> py_error + 'f db_message" where
  "get_message_by_name d n = (case by_name d n of None \<Rightarrow> Inl KeyError | Some m \<Rightarrow> Inr m)"

definition get_message_by_frame_id :: "'f database \<Rightarrow> nat \<Rightarrow> py_error + 'f db_message" where
  "get_message_by_frame_id d i =
     (case by_frame_id d i of None \<Rightarrow> Inl KeyError | Some m \<Rightarrow> Inr m)"

text \<open>A frame on the bus (can.Message), with the fields the code sets and reads.\<close>

record can_message =
  arbitration_id :: nat
  data :: bytes
  is_extended_id :: bool

text \<open>
  The transport: the frames sent so far, and whether it accepts a frame
  (\<open>bus.send\<close> raises when it does not).
\<close>

record can_bus =
  sent :: "can_message list"
  tx_ok :: "can_message \<Rightarrow> bool"

definition bus_send :: "can_bus \<Rightarrow> can_message \<Rightarrow> py_error + can_bus" where
  "bus_send b m = (if tx_ok b m then Inr (b\<lparr>sent := sent b @ [m]\<rparr>) else Inl CanError)"

record 'f controller =
  dcdc_id :: int
  dcdc_suffix :: string
  db :: "'f database"
  bus :: can_bus
  measurements :: "string \<rightharpoonup> 'f signals"
  errors :: "'f signals"
  warnings :: "'f pynum"
  regulation_info :: "'f signals"
  control_info :: "'f signals"

text \<open>
  The state that \<open>__init__\<close> leaves, given the database it loaded and the bus it opened.
\<close>

definition DCDCController_init :: "'f database \<Rightarrow> can_bus \<Rightarrow> int \<Rightarrow> 'f controller" where
  "DCDCController_init d b i =
     \<lparr>dcdc_id = i,
      dcdc_suffix = (if i > 0 then ''_'' @ py_str i else []),
      db = d,
      bus = b,
      measurements = Map.empty,
      errors = [''critical'' \<mapsto> PyInt 0, ''functional'' \<mapsto> PyInt 0],
      warnings = PyInt 0,
      regulation_info = Map.empty,
      control_info = Map.empty\<rparr>"

definition get_message_name :: "'f controller \<Rightarrow> string \<Rightarrow> string" where
  "get_message_name c base_name = base_name @ dcdc_suffix c"

text \<open>
  The tail that every command shares: encode the signal values with the message found,
  build an extended frame and send it.
\<close>

definition send_encoded ::
  "'f controller \<Rightarrow> 'f db_message \<Rightarrow> 'f signals \<Rightarrow> py_error + 'f controller" where
  "send_encoded c message vals =
     (case encode message vals of
        Inl e \<Rightarrow> Inl e
      | Inr d \<Rightarrow>
          (case bus_send (bus c)
                  \<lparr>arbitration_id = frame_id message, data = d, is_extended_id = True\<rparr> of
             Inl e \<Rightarrow> Inl e
           | Inr b \<Rightarrow> Inr (c\<lparr>bus := b\<rparr>)))"

definition set_mode :: "'f controller \<Rightarrow> ConverterMode \<Rightarrow> ControlType \<Rightarrow> py_error + 'f controller" where
  "set_mode c converter_mode control_type =
     (case get_message_by_name (db c) (get_message_name c ''DCDC_ModeRequest'') of
        Inl e \<Rightarrow> Inl e
      | Inr message \<Rightarrow>
          send_encoded c message
            [''converterModeReq'' \<mapsto> PyInt (ConverterMode_value converter_mode),
             ''controlTypeReq'' \<mapsto> PyInt (ControlType_value control_type)])"

text \<open>The conversion of the setpoint in \<open>start_converter\<close>, by control type.\<close>

definition setpoint_raw :: "'f float_ops \<Rightarrow> 'f pynum \<Rightarrow> ControlType \<Rightarrow> py_error + int" where
  "setpoint_raw fp setpoint control_type =
     (if control_type \<in> {V_BUS1, V_BUS2, V_BUS1_ILIM, V_BUS2_ILIM}
        then int_of_num fp (num_mul fp setpoint 10)
      else if control_type \<in> {I_BUS1, I_BUS2}
        then int_of_num fp (num_mul fp setpoint 10)
      else int_of_num fp setpoint)"

definition start_converter ::
  "'f float_ops \<Rightarrow> 'f controller \<Rightarrow> 'f pynum \<Rightarrow> ControlType \<Rightarrow> ConverterMode \<Rightarrow> 'f pynum
     \<Rightarrow> py_error + 'f controller" where
  "start_converter fp c setpoint control_type converter_mode current_limit =
     (case set_mode c converter_mode control_type of
        Inl e \<Rightarrow> Inl e
      | Inr c1 \<Rightarrow>
          (case get_message_by_name (db c1) (get_message_name c1 ''DCDC_ControlRequest'') of
             Inl e \<Rightarrow> Inl e
           | Inr message \<Rightarrow>
               (case setpoint_raw fp setpoint control_type of
                  Inl e \<Rightarrow> Inl e
                | Inr raw \<Rightarrow>
                    send_encoded c1 message
                      [''startCommand'' \<mapsto> PyInt 1,
                       ''setpointReq'' \<mapsto> PyInt raw,
                       ''currentLimitReq'' \<mapsto> current_limit])))"

definition stop_converter :: "'f controller \<Rightarrow> py_error + 'f controller" where
  "stop_converter c =
     (case get_message_by_name (db c) (get_message_name c ''DCDC_ControlRequest'') of
        Inl e \<Rightarrow> Inl e
      | Inr message \<Rightarrow>
          send_encoded c message
            [''startCommand'' \<mapsto> PyInt 0,
             ''setpointReq'' \<mapsto> PyInt 0,
             ''currentLimitReq'' \<mapsto> PyInt 0])"

definition set_setpoint ::
  "'f float_ops \<Rightarrow> 'f controller \<Rightarrow> 'f pynum \<Rightarrow> 'f pynum \<Rightarrow> py_error + 'f controller" where
  "set_setpoint fp c setpoint current_limit =
     (case get_message_by_name (db c) (get_message_name c ''DCDC_ControlRequest'') of
        Inl e \<Rightarrow> Inl e
      | Inr message \<Rightarrow>
          (case int_of_num fp setpoint of
             Inl e \<Rightarrow> Inl e
           | Inr raw \<Rightarrow>
               send_encoded c message
                 [''startCommand'' \<mapsto> PyInt 1,
                  ''setpointReq'' \<mapsto> PyInt raw,
                  ''currentLimitReq'' \<mapsto> current_limit]))"

text \<open>
  \<open>receive_messages\<close>: the loop calls \<open>bus.recv\<close> while the time budget lasts. The
  model is given the outcomes of these calls in order: an exception of the transport,
  \<open>None\<close> (nothing arrived within 0.1 s) or a frame. When an exception leaves a function
  the model gives the exception alone.
\<close>

definition store_decoded :: "string \<Rightarrow> 'f signals \<Rightarrow> 'f controller \<Rightarrow> 'f controller" where
  "store_decoded msg_name decoded c =
     (if py_in ''CurrentMeasures'' msg_name
        then c\<lparr>measurements := (measurements c)(''current'' \<mapsto> decoded)\<rparr>
      else if py_in ''VoltageMeasures'' msg_name
        then c\<lparr>measurements := (measurements c)(''voltage'' \<mapsto> decoded)\<rparr>
      else if py_in ''PowerMeasures'' msg_name
        then c\<lparr>measurements := (measurements c)(''power'' \<mapsto> decoded)\<rparr>
      else if py_in ''TemperatureMeasures'' msg_name
        then c\<lparr>measurements := (measurements c)(''temperature'' \<mapsto> decoded)\<rparr>
      else if py_in ''Errors'' msg_name
        then c\<lparr>errors := decoded\<rparr>
      else if py_in ''Warnings'' msg_name
        then c\<lparr>warnings := (case decoded ''warnings'' of None \<Rightarrow> PyInt 0 | Some v \<Rightarrow> v)\<rparr>
      else if py_in ''RegulationInformation'' msg_name
        then c\<lparr>regulation_info := decoded\<rparr>
      else if py_in ''ControlInformation'' msg_name
        then c\<lparr>control_info := decoded\<rparr>
      else c)"

text \<open>The \<open>except\<close> clause of the loop catches these two exceptions only.\<close>

definition caught :: "py_error \<Rightarrow> bool" where
  "caught e = (e = KeyError \<or> e = DecodeError)"

text \<open>
  The body of the loop for one frame: the new state and the entries appended to
  \<open>decoded_messages\<close>.
\<close>

definition receive_frame ::
  "'f controller \<Rightarrow> can_message \<Rightarrow> py_error + 'f controller \<times> (string \<times> 'f signals) list" where
  "receive_frame c msg =
     (case get_message_by_frame_id (db c) (arbitration_id msg) of
        Inl e \<Rightarrow> if caught e then Inr (c, []) else Inl e
      | Inr db_msg \<Rightarrow>
          (case decode db_msg (data msg) of
             Inl e \<Rightarrow> if caught e then Inr (c, []) else Inl e
           | Inr decoded \<Rightarrow>
               Inr (store_decoded (name db_msg) decoded c, [(name db_msg, decoded)])))"

fun receive_messages ::
  "'f controller \<Rightarrow> (py_error + can_message option) list
     \<Rightarrow> py_error + 'f controller \<times> (string \<times> 'f signals) list" where
  "receive_messages c [] = Inr (c, [])"
| "receive_messages c (Inl e # rs) = Inl e"
| "receive_messages c (Inr None # rs) = receive_messages c rs"
| "receive_messages c (Inr (Some msg) # rs) =
     (case receive_frame c msg of
        Inl e \<Rightarrow> Inl e
      | Inr (c1, out) \<Rightarrow>
          (case receive_messages c1 rs of
             Inl e \<Rightarrow> Inl e
           | Inr (c2, outs) \<Rightarrow> Inr (c2, out @ outs)))"

text \<open>
  The eight cache categories and, for each, the value the session holds for it:
  four keys of \<open>measurements\<close> and the four other attributes.
\<close>

datatype category =
    Current | Voltage | Power | Temperature | Errors | Warnings | Regulation | Control

datatype 'f cache_value = Missing | Decoded "'f signals" | Scalar "'f pynum"

fun cached :: "'f controller \<Rightarrow> category \<Rightarrow> 'f cache_value" where
  "cached c Current = (case measurements c ''current'' of None \<Rightarrow> Missing | Some d \<Rightarrow> Decoded d)"
| "cached c Voltage = (case measurements c ''voltage'' of None \<Rightarrow> Missing | Some d \<Rightarrow> Decoded d)"
| "cached c Power = (case measurements c ''power'' of None \<Rightarrow> Missing | Some d \<Rightarrow> Decoded d)"
| "cached c Temperature =
     (case measurements c ''temperature'' of None \<Rightarrow> Missing | Some d \<Rightarrow> Decoded d)"
| "cached c Errors = Decoded (errors c)"
| "cached c Warnings = Scalar (warnings c)"
| "cached c Regulation = Decoded (regulation_info c)"
| "cached c Control = Decoded (control_info c)"

text \<open>
  The classification as the specification words it: the first name pattern, in the
  order of the categories above, that occurs in the message name.
\<close>

definition category_of :: "string \<Rightarrow> category option" where
  "category_of msg_name =
     (if py_in ''CurrentMeasures'' msg_name then Some Current
      else if py_in ''VoltageMeasures'' msg_name then Some Voltage
      else if py_in ''PowerMeasures'' msg_name then Some Power
      else if py_in ''TemperatureMeasures'' msg_name then Some Temperature
      else if py_in ''Errors'' msg_name then Some Errors
      else if py_in ''Warnings'' msg_name then Some Warnings
      else if py_in ''RegulationInformation'' msg_name then Some Regulation
      else if py_in ''ControlInformation'' msg_name then Some Control
      else None)"

text \<open>The value that a decoded frame leaves in its category.\<close>

fun stored :: "category \<Rightarrow> 'f signals \<Rightarrow> 'f cache_value" where
  "stored Warnings decoded =
     Scalar (case decoded ''warnings'' of None \<Rightarrow> PyInt 0 | Some v \<Rightarrow> v)"
| "stored cat decoded = Decoded decoded"

section \<open>The bus handler: can_handler.py\<close>

text \<open>
  A received frame carries a timestamp as well. The record \<open>CANMessage\<close> is the
  dataclass of that name; its fields are written with the prefix \<open>cm\<close> here, apart from
  those of the frame and of the database message.
\<close>

record 't rx_message = can_message +
  timestamp :: 't

record ('f, 't) CANMessage =
  cm_can_id :: nat
  cm_name :: string
  cm_data :: "'f signals"
  cm_data_hex :: string
  cm_timestamp :: 't

text \<open>The handler: its bus and database attributes, each \<open>None\<close> until set.\<close>

record 'f CANBusHandler =
  handler_bus :: "can_bus option"
  handler_db :: "'f database option"

text \<open>
  \<open>format_X n\<close> is the format specification \<open>{n:X}\<close> (upper-case hexadecimal, no
  padding) and \<open>bytes_hex\<close> is \<open>bytes.hex()\<close> (two lower-case digits for each byte).
\<close>

function format_X :: "nat \<Rightarrow> string" where
  "format_X n =
     (if n < 16 then [''0123456789ABCDEF'' ! n]
      else format_X (n div 16) @ [''0123456789ABCDEF'' ! (n mod 16)])"
  by pat_completeness auto
termination
  by (relation "measure id") auto

declare format_X.simps [simp del]

definition bytes_hex :: "bytes \<Rightarrow> string" where
  "bytes_hex bs =
     concat (map (\<lambda>b. [''0123456789abcdef'' ! (unat b div 16),
                        ''0123456789abcdef'' ! (unat b mod 16)]) bs)"

text \<open>
  \<open>receive_message\<close>, given the outcome of \<open>bus.recv(timeout)\<close>: an exception of the
  transport, \<open>None\<close> when the timeout expired, or a frame. The \<open>except\<close> clause around the
  lookup and the decoding catches every exception; what was assigned before it stays.
\<close>

definition receive_message ::
  "'f CANBusHandler \<Rightarrow> py_error + 't rx_message option
     \<Rightarrow> py_error + ('f, 't) CANMessage option" where
  "receive_message h rx =
     (if handler_bus h = None then Inl ConnectionError
      else case rx of
        Inl e \<Rightarrow> Inl e
      | Inr None \<Rightarrow> Inr None
      | Inr (Some message) \<Rightarrow>
          (let hex_name = ''0x'' @ format_X (arbitration_id message);
               (message_name, decoded_data) =
                 (case handler_db h of
                    None \<Rightarrow> (hex_name, Map.empty)
                  | Some d \<Rightarrow>
                      (case get_message_by_frame_id d (arbitration_id message) of
                         Inl e \<Rightarrow> (hex_name, Map.empty)
                       | Inr db_message \<Rightarrow>
                           (case decode db_message (data message) of
                              Inl e \<Rightarrow> (name db_message, Map.empty)
                            | Inr decoded \<Rightarrow> (name db_message, decoded))))
           in Inr (Some \<lparr>cm_can_id = arbitration_id message,
                          cm_name = message_name,
                          cm_data = decoded_data,
                          cm_data_hex = bytes_hex (data message),
                          cm_timestamp = timestamp message\<rparr>)))"

text \<open>The number that a string of hexadecimal digits denotes.\<close>

definition hex_value :: "string \<Rightarrow> nat" where
  "hex_value s =
     foldl (\<lambda>a c. 16 * a + (if of_char c \<le> (57::nat) then of_char c - 48 else of_char c - 55))
       0 s"

section \<open>More of Python's strings\<close>

text \<open>
  The white space of \<open>str.split()\<close>, \<open>str.strip()\<close> and \<open>int()\<close> among the code points
  below 256: the blank, the characters 9 to 13, the separators 28 to 31, the next-line
  character 133 and the no-break space 160.
\<close>

definition is_space :: "char \<Rightarrow> bool" where
  "is_space c =
     (let n = (of_char c :: nat)
      in n = 32 \<or> (9 \<le> n \<and> n \<le> 13) \<or> (28 \<le> n \<and> n \<le> 31) \<or> n = 133 \<or> n = 160)"

text \<open>\<open>s.split()\<close>: the maximal runs of characters that are not white space.\<close>

fun split_acc :: "string \<Rightarrow> string \<Rightarrow> string list" where
  "split_acc w [] = (if w = [] then [] else [w])"
| "split_acc w (c # cs) =
     (if is_space c then (if w = [] then split_acc [] cs else w # split_acc [] cs)
      else split_acc (w @ [c]) cs)"

definition py_split :: "string \<Rightarrow> string list" where
  "py_split s = split_acc [] s"

text \<open>
  \<open>s.split(None, n)\<close>: at most \<open>n\<close> words are split off; what remains, without its
  leading white space, is the last element if it is not empty.
\<close>

fun py_split_max :: "nat \<Rightarrow> string \<Rightarrow> string list" where
  "py_split_max 0 s = (let r = dropWhile is_space s in if r = [] then [] else [r])"
| "py_split_max (Suc n) s =
     (let r = dropWhile is_space s
      in if r = [] then []
         else takeWhile (\<lambda>c. \<not> is_space c) r # py_split_max n (dropWhile (\<lambda>c. \<not> is_space c) r))"

definition py_strip :: "string \<Rightarrow> string" where
  "py_strip s = rev (dropWhile is_space (rev (dropWhile is_space s)))"

definition py_rstrip :: "string \<Rightarrow> string \<Rightarrow> string" where
  "py_rstrip chars s = rev (dropWhile (\<lambda>c. c \<in> set chars) (rev s))"

text \<open>\<open>xs[i]\<close> for an index that is not negative.\<close>

definition py_index :: "'a list \<Rightarrow> nat \<Rightarrow> py_error + 'a" where
  "py_index xs i = (if i < length xs then Inr (xs ! i) else Inl IndexError)"

text \<open>
  \<open>int(s)\<close> in base 10: white space around, an optional sign, then decimal digits, where
  single underscores may stand between digits.
\<close>

definition is_digit :: "char \<Rightarrow> bool" where
  "is_digit c = (48 \<le> (of_char c :: nat) \<and> (of_char c :: nat) \<le> 57)"

fun parse_digits :: "nat \<Rightarrow> bool \<Rightarrow> string \<Rightarrow> nat option" where
  "parse_digits a d [] = (if d then Some a else None)"
| "parse_digits a d (c # cs) =
     (if is_digit c then parse_digits (10 * a + (of_char c - 48)) True cs
      else if c = CHR ''_'' \<and> d then parse_digits a False cs
      else None)"

definition int_of_str :: "string \<Rightarrow> py_error + int" where
  "int_of_str s =
     (case py_strip s of
        [] \<Rightarrow> Inl ValueError
      | c # cs \<Rightarrow>
          if c = CHR ''-'' then
            (case parse_digits 0 False cs of None \<Rightarrow> Inl ValueError | Some n \<Rightarrow> Inr (- int n))
          else if c = CHR ''+'' then
            (case parse_digits 0 False cs of None \<Rightarrow> Inl ValueError | Some n \<Rightarrow> Inr (int n))
          else
            (case parse_digits 0 False (c # cs) of None \<Rightarrow> Inl ValueError | Some n \<Rightarrow> Inr (int n)))"

text \<open>
  \<open>s.replace(old, new)\<close>: every occurrence of \<open>old\<close>, from the left and without overlap;
  an empty \<open>old\<close> matches before every character and at the end.
\<close>

function py_replace :: "string \<Rightarrow> string \<Rightarrow> string \<Rightarrow> string" where
  "py_replace s old new =
     (if old = [] then new @ concat (map (\<lambda>c. c # new) s)
      else if s = [] then []
      else if startswith s old then new @ py_replace (drop (length old) s) old new
      else hd s # py_replace (tl s) old new)"
  by pat_completeness auto
termination
  by (relation "measure (\<lambda>(s, old, new). length s)") (auto simp: neq_Nil_conv)

declare py_replace.simps [simp del]

section \<open>The expansion of a catalog: expand_dbc.py\<close>

text \<open>
  The file is the list of its lines, as \<open>readlines\<close> gives them (each with its line end),
  and the result is the list of lines that \<open>write_dbc\<close> receives. A message found by
  \<open>parse_messages\<close> is a dictionary with the keys \<open>can_id\<close>, \<open>name\<close>, \<open>dlc\<close>, \<open>sender\<close>,
  \<open>signals\<close> and \<open>line\<close>, written here with the prefix \<open>pm\<close>.
\<close>

record parsed_message =
  pm_can_id :: int
  pm_name :: string
  pm_dlc :: string
  pm_sender :: string
  pm_signals :: "string list"
  pm_line :: string

definition is_sg :: "string \<Rightarrow> bool" where
  "is_sg l = startswith l '' SG_''"

text \<open>The fields read from a \<open>BO_\<close> line: identifier, name, length and sender.\<close>

definition parse_bo :: "string \<Rightarrow> py_error + int \<times> string \<times> string \<times> string" where
  "parse_bo line =
     (let parts = py_split line in
      case py_index parts 1 of Inl e \<Rightarrow> Inl e | Inr p1 \<Rightarrow>
      case int_of_str p1 of Inl e \<Rightarrow> Inl e | Inr can_id \<Rightarrow>
      case py_index parts 2 of Inl e \<Rightarrow> Inl e | Inr p2 \<Rightarrow>
      case py_index parts 3 of Inl e \<Rightarrow> Inl e | Inr dlc \<Rightarrow>
      case py_index parts 4 of Inl e \<Rightarrow> Inl e | Inr p4 \<Rightarrow>
        Inr (can_id, py_rstrip '':'' p2, dlc, py_strip p4))"

function parse_messages :: "string list \<Rightarrow> py_error + parsed_message list" where
  "parse_messages [] = Inr []"
| "parse_messages (line # rest) =
     (if startswith line ''BO_ '' then
        (case parse_bo line of
           Inl e \<Rightarrow> Inl e
         | Inr (can_id, msg_name, dlc, sender) \<Rightarrow>
             (case parse_messages (dropWhile is_sg rest) of
                Inl e \<Rightarrow> Inl e
              | Inr ms \<Rightarrow>
                  Inr (\<lparr>pm_can_id = can_id, pm_name = msg_name, pm_dlc = dlc,
                        pm_sender = sender, pm_signals = takeWhile is_sg rest,
                        pm_line = line\<rparr> # ms)))
      else parse_messages rest)"
  by pat_completeness auto
termination
  by (relation "measure length")
    (auto intro: le_imp_less_Suc length_dropWhile_le)

text \<open>The suffix of a unit and the lines written for one unit of a multiplied message.\<close>

definition unit_suffix :: "nat \<Rightarrow> string" where
  "unit_suffix unit_id = (if unit_id > 0 then ''_'' @ py_str (int unit_id) else [])"

definition unit_block ::
  "parsed_message option \<Rightarrow> int \<Rightarrow> string \<Rightarrow> string \<Rightarrow> string \<Rightarrow> nat \<Rightarrow> string list" where
  "unit_block msg_data can_id msg_name dlc sender unit_id =
     (let new_can_id = can_id + int unit_id;
          new_msg_name = msg_name @ unit_suffix unit_id;
          new_sender = py_replace sender ''DCDC_Primary''
            (if unit_id > 0 then ''DCDC_Primary'' @ unit_suffix unit_id else ''DCDC_Primary'')
      in (''BO_ '' @ py_str new_can_id @ '' '' @ new_msg_name @ '': '' @ dlc @ '' '' @ new_sender
            @ ''\<newline>'')
         # (case msg_data of
              None \<Rightarrow> []
            | Some m \<Rightarrow>
                map (\<lambda>sig_line.
                       if py_in ''DCDC_Primary'' sig_line \<and> unit_id > 0
                       then py_replace sig_line ''DCDC_Primary''
                              (''DCDC_Primary_'' @ py_str (int unit_id))
                       else sig_line)
                    (pm_signals m))
         @ [''\<newline>''])"

text \<open>
  The branch for a \<open>BO_\<close> line, given the \<open>SG_\<close> lines that follow it in the file: the
  lines written for the message and its signals.
\<close>

definition expand_bo ::
  "parsed_message list \<Rightarrow> nat \<Rightarrow> string \<Rightarrow> string list \<Rightarrow> py_error + string list" where
  "expand_bo messages num_units line sigs =
     (case parse_bo line of
        Inl e \<Rightarrow> Inl e
      | Inr (can_id, msg_name, dlc, sender) \<Rightarrow>
          (let msg_data = find (\<lambda>msg. pm_can_id msg = can_id) messages in
           if py_in ''DCDC_Primary'' sender \<or> py_in ''DCDC'' msg_name
           then Inr (concat (map (unit_block msg_data can_id msg_name dlc sender) [0..<num_units]))
           else Inr (line # sigs)))"

definition in_dcdc_range :: "int \<Rightarrow> bool" where
  "in_dcdc_range can_id = (can_id \<ge> 2148532224 \<and> can_id \<le> 2305818624)"

text \<open>
  The branches for the other records. Each gives the lines it writes, or \<open>None\<close> when the
  line falls through to the branches after it.
\<close>

definition expand_cm_bo :: "nat \<Rightarrow> string \<Rightarrow> py_error + string list option" where
  \<open>expand_cm_bo num_units line =
     (if startswith line ''CM_ BO_ '' then
        (let parts = py_split_max 3 line in
         case py_index parts 2 of Inl e \<Rightarrow> Inl e | Inr p2 \<Rightarrow>
         case int_of_str p2 of Inl e \<Rightarrow> Inl e | Inr can_id \<Rightarrow>
           (let comment = (if length parts > 3 then parts ! 3 else ''""'') in
            if in_dcdc_range can_id
            then Inr (Some (map (\<lambda>unit_id. ''CM_ BO_ '' @ py_str (can_id + int unit_id) @ '' ''
                                   @ comment) [0..<num_units]))
            else Inr None))
      else Inr None)\<close>

definition expand_cm_sg :: "nat \<Rightarrow> string \<Rightarrow> py_error + string list option" where
  \<open>expand_cm_sg num_units line =
     (if startswith line ''CM_ SG_ '' then
        (let parts = py_split_max 4 line in
         case py_index parts 2 of Inl e \<Rightarrow> Inl e | Inr p2 \<Rightarrow>
         case int_of_str p2 of Inl e \<Rightarrow> Inl e | Inr can_id \<Rightarrow>
         case py_index parts 3 of Inl e \<Rightarrow> Inl e | Inr sig_name \<Rightarrow>
           (let comment = (if length parts > 4 then parts ! 4 else ''""'') in
            if in_dcdc_range can_id
            then Inr (Some (map (\<lambda>unit_id. ''CM_ SG_ '' @ py_str (can_id + int unit_id) @ '' ''
                                   @ sig_name @ '' '' @ comment) [0..<num_units]))
            else Inr None))
      else Inr None)\<close>

text \<open>
  The loop over the words of a \<open>BA_\<close> line, from the word at hand: at the first
  \<open>BO_\<close> that is followed by an identifier in the range, the copies of the line;
  \<open>None\<close> when the loop ends without one.
\<close>

fun ba_scan :: "nat \<Rightarrow> string \<Rightarrow> string list \<Rightarrow> string list option" where
  "ba_scan num_units line (part # nxt # parts) =
     (if part = ''BO_'' then
        (case int_of_str nxt of
           Inr can_id \<Rightarrow>
             if in_dcdc_range can_id
             then Some (map (\<lambda>unit_id. py_replace line (''BO_ '' @ py_str can_id)
                                        (''BO_ '' @ py_str (can_id + int unit_id)))
                          [0..<num_units])
             else ba_scan num_units line (nxt # parts)
         | Inl e \<Rightarrow> ba_scan num_units line (nxt # parts))
      else ba_scan num_units line (nxt # parts))"
| "ba_scan num_units line parts = None"

definition expand_val :: "nat \<Rightarrow> string \<Rightarrow> py_error + string list option" where
  "expand_val num_units line =
     (if startswith line ''VAL_ '' then
        (let parts = py_split_max 2 line in
         if length parts \<ge> 2 then
           (case int_of_str (parts ! 1) of
              Inl e \<Rightarrow> Inr None
            | Inr can_id \<Rightarrow>
                if in_dcdc_range can_id then
                  (case py_index parts 2 of
                     Inl e \<Rightarrow> Inl e
                   | Inr rest \<Rightarrow>
                       Inr (Some (map (\<lambda>unit_id. ''VAL_ '' @ py_str (can_id + int unit_id) @ '' ''
                                         @ rest) [0..<num_units])))
                else Inr None)
         else Inr None)
      else Inr None)"

text \<open>The lines written for a line that is none of the preamble, \<open>BU_:\<close> or \<open>BO_\<close>.\<close>

definition expand_other :: "nat \<Rightarrow> string \<Rightarrow> py_error + string list" where
  \<open>expand_other num_units line =
     (case expand_cm_bo num_units line of
        Inl e \<Rightarrow> Inl e
      | Inr (Some out) \<Rightarrow> Inr out
      | Inr None \<Rightarrow>
     (case expand_cm_sg num_units line of
        Inl e \<Rightarrow> Inl e
      | Inr (Some out) \<Rightarrow> Inr out
      | Inr None \<Rightarrow>
     (if startswith line ''CM_ BU_ DCDC_Primary '' then
        (case py_index (py_split_max 3 line) 3 of
           Inl e \<Rightarrow> Inl e
         | Inr comment \<Rightarrow>
             Inr [line,
                  ''CM_ BU_ DCDC_Primary_1 "DCDC_Converter Primary_1 CAN interface";\<newline>'',
                  ''CM_ BU_ DCDC_Primary_2 "DCDC_Converter Primary_2 CAN interface";\<newline>''])
      else if startswith line ''BA_ "NmStationAddress" BU_ DCDC_Primary'' then
        Inr [line,
             ''BA_ "NmStationAddress" BU_ DCDC_Primary_1 1;\<newline>'',
             ''BA_ "NmStationAddress" BU_ DCDC_Primary_2 2;\<newline>'']
      else if startswith line ''BA_ '' \<and> py_in ''BO_ '' line then
        (case ba_scan num_units line (py_split line) of
           Some out \<Rightarrow> Inr out
         | None \<Rightarrow> Inr [line])
      else
        (case expand_val num_units line of
           Inl e \<Rightarrow> Inl e
         | Inr (Some out) \<Rightarrow> Inr out
         | Inr None \<Rightarrow> Inr [line]))))\<close>

text \<open>
  Sequencing: the lines of one step, then the lines of the rest of the loop; an exception
  in either ends the run, and then no file is written.
\<close>

definition emit :: "py_error + string list \<Rightarrow> py_error + string list \<Rightarrow> py_error + string list" where
  "emit a b =
     (case a of
        Inl e \<Rightarrow> Inl e
      | Inr xs \<Rightarrow> (case b of Inl e \<Rightarrow> Inl e | Inr ys \<Rightarrow> Inr (xs @ ys)))"

function expand_lines :: "parsed_message list \<Rightarrow> nat \<Rightarrow> string list \<Rightarrow> py_error + string list" where
  "expand_lines messages num_units [] = Inr []"
| "expand_lines messages num_units (line # rest) =
     (if startswith line ''VERSION'' \<or> startswith line ''NS_'' \<or> startswith line ''BS_:''
        then emit (Inr [line]) (expand_lines messages num_units rest)
      else if startswith line ''BU_:''
        then emit (Inr [''BU_: SUPERVISER DCDC_Primary DCDC_Primary_1 DCDC_Primary_2\<newline>''])
               (expand_lines messages num_units rest)
      else if startswith line ''BO_ ''
        then emit (expand_bo messages num_units line (takeWhile is_sg rest))
               (expand_lines messages num_units (dropWhile is_sg rest))
      else emit (expand_other num_units line) (expand_lines messages num_units rest))"
  by pat_completeness auto
termination
  by (relation "measure (\<lambda>(messages, num_units, ls). length ls)")
    (auto intro: le_imp_less_Suc length_dropWhile_le)

definition expand_dbc_for_multiple_units :: "string list \<Rightarrow> nat \<Rightarrow> py_error + string list" where
  "expand_dbc_for_multiple_units lines num_units =
     (case parse_messages lines of
        Inl e \<Rightarrow> Inl e
      | Inr messages \<Rightarrow> expand_lines messages num_units lines)"

section \<open>A small catalog for the examples\<close>

text \<open>
  Floats read as rationals, a database of three messages with a simple byte codec, and a
  bus that accepts every frame. The examples below run the model on them.
\<close>

definition ex_float_ops :: "rat float_ops" where
  "ex_float_ops =
     \<lparr>float_mul = (\<lambda>x k. x * of_int k),
      float_to_int = (\<lambda>x. Inr (if 0 \<le> x then \<lfloor>x\<rfloor> else \<lceil>x\<rceil>))\<rparr>"

definition ex_mode_request :: "rat db_message" where
  "ex_mode_request =
     \<lparr>frame_id = 2148532480, name = ''DCDC_ModeRequest'',
      encode = (\<lambda>v. case (v ''converterModeReq'', v ''controlTypeReq'') of
                        (Some (PyInt a), Some (PyInt b)) \<Rightarrow> Inr [word_of_int a, word_of_int b]
                      | _ \<Rightarrow> Inl EncodeError),
      decode = (\<lambda>bs. Inr Map.empty)\<rparr>"

definition ex_control_request :: "rat db_message" where
  "ex_control_request =
     \<lparr>frame_id = 2148532224, name = ''DCDC_ControlRequest'',
      encode = (\<lambda>v. case (v ''startCommand'', v ''setpointReq'') of
                        (Some (PyInt s), Some (PyInt r)) \<Rightarrow>
                          Inr [word_of_int s, word_of_int r, word_of_int (r div 256)]
                      | _ \<Rightarrow> Inl EncodeError),
      decode = (\<lambda>bs. Inr Map.empty)\<rparr>"

definition ex_voltage_measures :: "rat db_message" where
  "ex_voltage_measures =
     \<lparr>frame_id = 2148533504, name = ''DCDC_VoltageMeasures'',
      encode = (\<lambda>v. Inl EncodeError),
      decode = (\<lambda>bs. case bs of
                         [a, b] \<Rightarrow> Inr [''vBus1'' \<mapsto> PyInt (uint a), ''vBus2'' \<mapsto> PyInt (uint b)]
                       | _ \<Rightarrow> Inl DecodeError)\<rparr>"

definition ex_database :: "rat database" where
  "ex_database =
     \<lparr>by_name = [''DCDC_ModeRequest'' \<mapsto> ex_mode_request,
                 ''DCDC_ControlRequest'' \<mapsto> ex_control_request,
                 ''DCDC_VoltageMeasures'' \<mapsto> ex_voltage_measures],
      by_frame_id = [2148532480 \<mapsto> ex_mode_request,
                     2148532224 \<mapsto> ex_control_request,
                     2148533504 \<mapsto> ex_voltage_measures]\<rparr>"

definition ex_bus :: can_bus where
  "ex_bus = \<lparr>sent = [], tx_ok = (\<lambda>m. True)\<rparr>"

definition ex_controller :: "rat controller" where
  "ex_controller = DCDCController_init ex_database ex_bus 0"

section \<open>Properties of the controller\<close>

lemma send_encoded_ok:
  assumes "encode m vals = Inr d"
    and "tx_ok (bus c) \<lparr>arbitration_id = frame_id m, data = d, is_extended_id = True\<rparr>"
  shows "send_encoded c m vals =
    Inr (c\<lparr>bus := (bus c)\<lparr>sent := sent (bus c) @
      [\<lparr>arbitration_id = frame_id m, data = d, is_extended_id = True\<rparr>]\<rparr>\<rparr>)"
  using assms by (simp add: send_encoded_def bus_send_def)

lemma ex_controller_simps:
  "db ex_controller = ex_database"
  "bus ex_controller = ex_bus"
  "dcdc_suffix ex_controller = []"
  by (simp_all add: ex_controller_def DCDCController_init_def)

text \<open>
  C1. When the database holds the mode-request and the control-request message of the
  unit, the codec encodes both records and the bus accepts both frames, \<open>start_converter\<close>
  returns having sent exactly two frames, in this order: the mode-selection frame, then
  the control-request frame that encodes \<open>startCommand = 1\<close> and the raw setpoint. The raw
  setpoint is \<open>int(setpoint * 10)\<close> for the four voltage and the two current control
  types and \<open>int(setpoint)\<close> for the two power types.
\<close>

theorem start_converter_sends_mode_then_control:
  assumes mode: "by_name (db c) (get_message_name c ''DCDC_ModeRequest'') = Some mm"
    and enc1: "encode mm [''converterModeReq'' \<mapsto> PyInt (ConverterMode_value converter_mode),
                          ''controlTypeReq'' \<mapsto> PyInt (ControlType_value control_type)] = Inr d1"
    and tx1: "tx_ok (bus c) \<lparr>arbitration_id = frame_id mm, data = d1, is_extended_id = True\<rparr>"
    and ctl: "by_name (db c) (get_message_name c ''DCDC_ControlRequest'') = Some cm"
    and raw: "setpoint_raw fp setpoint control_type = Inr raw"
    and enc2: "encode cm [''startCommand'' \<mapsto> PyInt 1, ''setpointReq'' \<mapsto> PyInt raw,
                          ''currentLimitReq'' \<mapsto> current_limit] = Inr d2"
    and tx2: "tx_ok (bus c) \<lparr>arbitration_id = frame_id cm, data = d2, is_extended_id = True\<rparr>"
  shows "start_converter fp c setpoint control_type converter_mode current_limit =
           Inr (c\<lparr>bus := (bus c)\<lparr>sent := sent (bus c) @
             [\<lparr>arbitration_id = frame_id mm, data = d1, is_extended_id = True\<rparr>,
              \<lparr>arbitration_id = frame_id cm, data = d2, is_extended_id = True\<rparr>]\<rparr>\<rparr>)
         \<and> (control_type \<in> {V_BUS1, V_BUS2, V_BUS1_ILIM, V_BUS2_ILIM, I_BUS1, I_BUS2}
              \<longrightarrow> int_of_num fp (num_mul fp setpoint 10) = Inr raw)
         \<and> (control_type \<in> {P_BUS1, P_BUS2} \<longrightarrow> int_of_num fp setpoint = Inr raw)"
proof -
  let ?f1 = "\<lparr>arbitration_id = frame_id mm, data = d1, is_extended_id = True\<rparr>"
  let ?f2 = "\<lparr>arbitration_id = frame_id cm, data = d2, is_extended_id = True\<rparr>"
  let ?c1 = "c\<lparr>bus := (bus c)\<lparr>sent := sent (bus c) @ [?f1]\<rparr>\<rparr>"
  have m: "set_mode c converter_mode control_type = Inr ?c1"
    using mode send_encoded_ok [OF enc1 tx1]
    by (simp add: set_mode_def get_message_by_name_def)
  have l: "get_message_by_name (db ?c1) (get_message_name ?c1 ''DCDC_ControlRequest'') = Inr cm"
    using ctl by (simp add: get_message_by_name_def get_message_name_def)
  have tx2': "tx_ok (bus ?c1) ?f2"
    using tx2 by simp
  have s: "start_converter fp c setpoint control_type converter_mode current_limit =
      Inr (?c1\<lparr>bus := (bus ?c1)\<lparr>sent := sent (bus ?c1) @ [?f2]\<rparr>\<rparr>)"
    unfolding start_converter_def
    using m l raw send_encoded_ok [OF enc2 tx2'] by simp
  have r: "(control_type \<in> {V_BUS1, V_BUS2, V_BUS1_ILIM, V_BUS2_ILIM, I_BUS1, I_BUS2}
              \<longrightarrow> int_of_num fp (num_mul fp setpoint 10) = Inr raw)
         \<and> (control_type \<in> {P_BUS1, P_BUS2} \<longrightarrow> int_of_num fp setpoint = Inr raw)"
    using raw by (auto simp: setpoint_raw_def)
  from s r show ?thesis by simp
qed

text \<open>
  The call of the repository's example: 24.0 V on bus 2, from bus 1 to bus 2, 200 A.
  The control-request payload starts with the start command 1 and the raw setpoint 240.
\<close>

theorem start_converter_sends_mode_then_control_witness:
  "start_converter ex_float_ops ex_controller (PyFloat 24) V_BUS2 BUS1_TO_BUS2 (PyFloat 200) =
     Inr (ex_controller\<lparr>bus := ex_bus\<lparr>sent :=
       [\<lparr>arbitration_id = 2148532480, data = [1, 1], is_extended_id = True\<rparr>,
        \<lparr>arbitration_id = 2148532224, data = [1, 240, 0], is_extended_id = True\<rparr>]\<rparr>\<rparr>)
   \<and> int_of_num ex_float_ops (num_mul ex_float_ops (PyFloat 24) 10) = Inr 240"
  using start_converter_sends_mode_then_control
    [of ex_controller ex_mode_request BUS1_TO_BUS2 V_BUS2 "[1, 1]" ex_control_request
        ex_float_ops "PyFloat 24" 240 "PyFloat 200" "[1, 240, 0]"]
  by (simp add: ex_controller_simps get_message_name_def ex_database_def ex_bus_def
        ex_mode_request_def ex_control_request_def setpoint_raw_def ex_float_ops_def)

text \<open>
  C2. In every state of the controller (whatever its cache holds and whatever it has sent
  before, so also when nothing was started), \<open>set_setpoint\<close> sends one control-request
  frame, and the record it encodes has \<open>startCommand = 1\<close>; this holds when the database
  holds the control-request message, \<open>int(setpoint)\<close> is defined, the codec encodes the
  record and the bus accepts the frame.
\<close>

theorem set_setpoint_always_starts:
  assumes ctl: "by_name (db c) (get_message_name c ''DCDC_ControlRequest'') = Some cm"
    and raw: "int_of_num fp setpoint = Inr raw"
    and enc: "encode cm [''startCommand'' \<mapsto> PyInt 1, ''setpointReq'' \<mapsto> PyInt raw,
                         ''currentLimitReq'' \<mapsto> current_limit] = Inr d"
    and tx: "tx_ok (bus c) \<lparr>arbitration_id = frame_id cm, data = d, is_extended_id = True\<rparr>"
  shows "set_setpoint fp c setpoint current_limit =
           Inr (c\<lparr>bus := (bus c)\<lparr>sent := sent (bus c) @
             [\<lparr>arbitration_id = frame_id cm, data = d, is_extended_id = True\<rparr>]\<rparr>\<rparr>)"
  using ctl raw send_encoded_ok [OF enc tx]
  by (simp add: set_setpoint_def get_message_by_name_def)

text \<open>On the controller as \<open>__init__\<close> leaves it: the first frame ever sent is a start.\<close>

theorem set_setpoint_always_starts_witness:
  "sent (bus ex_controller) = []
   \<and> set_setpoint ex_float_ops ex_controller (PyInt 120) (PyFloat 150) =
       Inr (ex_controller\<lparr>bus := ex_bus\<lparr>sent :=
         [\<lparr>arbitration_id = 2148532224, data = [1, 120, 0], is_extended_id = True\<rparr>]\<rparr>\<rparr>)"
  using set_setpoint_always_starts
    [of ex_controller ex_control_request ex_float_ops "PyInt 120" 120 "PyFloat 150" "[1, 120, 0]"]
  by (simp add: ex_controller_simps get_message_name_def ex_database_def ex_bus_def
        ex_control_request_def)

text \<open>
  C3. \<open>stop_converter\<close> reads the database and the unit suffix only. For two states of one
  controller (same database, same suffix; any cache, any frames sent before, any bus), both
  calls return exactly when the database holds the control-request message, the codec
  encodes the all-zero record and each bus accepts the frame; and then both send the same
  frame, which encodes \<open>startCommand = 0\<close>, setpoint 0 and current limit 0.
\<close>

theorem stop_converter_idempotent:
  assumes "db c2 = db c1" and "dcdc_suffix c2 = dcdc_suffix c1"
  shows "(stop_converter c1 = Inr c1' \<and> stop_converter c2 = Inr c2') =
         (\<exists>cm d. by_name (db c1) (get_message_name c1 ''DCDC_ControlRequest'') = Some cm
            \<and> encode cm [''startCommand'' \<mapsto> PyInt 0, ''setpointReq'' \<mapsto> PyInt 0,
                          ''currentLimitReq'' \<mapsto> PyInt 0] = Inr d
            \<and> tx_ok (bus c1) \<lparr>arbitration_id = frame_id cm, data = d, is_extended_id = True\<rparr>
            \<and> tx_ok (bus c2) \<lparr>arbitration_id = frame_id cm, data = d, is_extended_id = True\<rparr>
            \<and> c1' = c1\<lparr>bus := (bus c1)\<lparr>sent := sent (bus c1) @
                  [\<lparr>arbitration_id = frame_id cm, data = d, is_extended_id = True\<rparr>]\<rparr>\<rparr>
            \<and> c2' = c2\<lparr>bus := (bus c2)\<lparr>sent := sent (bus c2) @
                  [\<lparr>arbitration_id = frame_id cm, data = d, is_extended_id = True\<rparr>]\<rparr>\<rparr>)"
  using assms
  by (auto simp: stop_converter_def get_message_by_name_def get_message_name_def
        send_encoded_def bus_send_def
      split: option.splits sum.splits if_splits)

text \<open>Two calls in a row: the second call runs on the state the first one left.\<close>

theorem stop_converter_idempotent_witness:
  "stop_converter ex_controller =
     Inr (ex_controller\<lparr>bus := ex_bus\<lparr>sent :=
       [\<lparr>arbitration_id = 2148532224, data = [0, 0, 0], is_extended_id = True\<rparr>]\<rparr>\<rparr>)
   \<and> stop_converter (ex_controller\<lparr>bus := ex_bus\<lparr>sent :=
       [\<lparr>arbitration_id = 2148532224, data = [0, 0, 0], is_extended_id = True\<rparr>]\<rparr>\<rparr>) =
     Inr (ex_controller\<lparr>bus := ex_bus\<lparr>sent :=
       [\<lparr>arbitration_id = 2148532224, data = [0, 0, 0], is_extended_id = True\<rparr>,
        \<lparr>arbitration_id = 2148532224, data = [0, 0, 0], is_extended_id = True\<rparr>]\<rparr>\<rparr>)"
  using stop_converter_idempotent
    [of "ex_controller\<lparr>bus := ex_bus\<lparr>sent :=
           [\<lparr>arbitration_id = 2148532224, data = [0, 0, 0], is_extended_id = True\<rparr>]\<rparr>\<rparr>"
        ex_controller
        "ex_controller\<lparr>bus := ex_bus\<lparr>sent :=
           [\<lparr>arbitration_id = 2148532224, data = [0, 0, 0], is_extended_id = True\<rparr>]\<rparr>\<rparr>"
        "ex_controller\<lparr>bus := ex_bus\<lparr>sent :=
           [\<lparr>arbitration_id = 2148532224, data = [0, 0, 0], is_extended_id = True\<rparr>,
            \<lparr>arbitration_id = 2148532224, data = [0, 0, 0], is_extended_id = True\<rparr>]\<rparr>\<rparr>"]
  by (simp add: ex_controller_simps get_message_name_def ex_database_def ex_bus_def
        ex_control_request_def)

lemma receive_frame_db: "receive_frame c msg = Inr (c', out) \<Longrightarrow> db c' = db c"
  by (auto simp: receive_frame_def store_decoded_def split: sum.splits if_splits)

lemma receive_frame_skip:
  assumes "by_frame_id (db c) (arbitration_id msg) = None
         \<or> (\<exists>m. by_frame_id (db c) (arbitration_id msg) = Some m
                \<and> decode m (data msg) = Inl DecodeError)"
  shows "receive_frame c msg = Inr (c, [])"
  using assms by (auto simp: receive_frame_def get_message_by_frame_id_def caught_def)

text \<open>
  C8. A frame whose identifier the database does not hold, or whose payload the codec
  rejects with a decode error, is skipped: the loop body returns without an exception,
  with the controller (so every cache category) unchanged and nothing appended to the
  result; and a call of \<open>receive_messages\<close> in which the frame arrives, at any point among
  other traffic, returns what it returns without that frame.
\<close>

theorem receive_skips_unknown_or_undecodable:
  assumes "by_frame_id (db c) (arbitration_id msg) = None
         \<or> (\<exists>m. by_frame_id (db c) (arbitration_id msg) = Some m
                \<and> decode m (data msg) = Inl DecodeError)"
  shows "receive_frame c msg = Inr (c, [])
       \<and> receive_messages c (pre @ Inr (Some msg) # post) = receive_messages c (pre @ post)"
proof
  show "receive_frame c msg = Inr (c, [])" using assms by (rule receive_frame_skip)
next
  have "\<And>c'. db c' = db c \<Longrightarrow>
      receive_messages c' (pre @ Inr (Some msg) # post) = receive_messages c' (pre @ post)"
  proof (induction pre)
    case Nil
    then have "receive_frame c' msg = Inr (c', [])"
      using assms by (intro receive_frame_skip) simp
    then show ?case by (simp split: sum.splits prod.splits)
  next
    case (Cons r pre)
    show ?case
    proof (cases r)
      case (Inl e)
      then show ?thesis by simp
    next
      case (Inr o1)
      show ?thesis
      proof (cases o1)
        case None
        with Inr Cons show ?thesis by simp
      next
        case (Some m1)
        show ?thesis
        proof (cases "receive_frame c' m1")
          case (Inl e)
          with Inr Some show ?thesis by simp
        next
          case inr: (Inr p)
          obtain c1 out where p: "p = (c1, out)" by (cases p)
          have "db c1 = db c" using inr p Cons.prems by (auto dest: receive_frame_db)
          then have "receive_messages c1 (pre @ Inr (Some msg) # post) =
              receive_messages c1 (pre @ post)"
            by (rule Cons.IH)
          with Inr Some inr p show ?thesis by simp
        qed
      qed
    qed
  qed
  then show "receive_messages c (pre @ Inr (Some msg) # post) = receive_messages c (pre @ post)"
    by simp
qed

text \<open>
  An unknown identifier (291) and a payload of the wrong length for a known identifier,
  between a timeout and the end of the budget: the call returns the controller as it was
  and an empty list.
\<close>

theorem receive_skips_unknown_or_undecodable_witness:
  "by_frame_id (db ex_controller) 291 = None
   \<and> receive_frame ex_controller \<lparr>arbitration_id = 291, data = [1, 2], is_extended_id = True\<rparr> =
       Inr (ex_controller, [])
   \<and> decode ex_voltage_measures [1] = Inl DecodeError
   \<and> receive_messages ex_controller
        [Inr None,
         Inr (Some \<lparr>arbitration_id = 291, data = [1, 2], is_extended_id = True\<rparr>),
         Inr (Some \<lparr>arbitration_id = 2148533504, data = [1], is_extended_id = True\<rparr>)] =
       Inr (ex_controller, [])"
  using receive_skips_unknown_or_undecodable
    [of ex_controller "\<lparr>arbitration_id = 291, data = [1, 2], is_extended_id = True\<rparr>"
        "[Inr None]"
        "[Inr (Some \<lparr>arbitration_id = 2148533504, data = [1], is_extended_id = True\<rparr>)]"]
    receive_skips_unknown_or_undecodable
    [of ex_controller "\<lparr>arbitration_id = 2148533504, data = [1], is_extended_id = True\<rparr>"
        "[Inr None]" "[]"]
  by (simp add: ex_controller_simps ex_database_def ex_voltage_measures_def)

lemma receive_messages_append:
  "receive_messages c (pre @ post) =
     (case receive_messages c pre of
        Inl e \<Rightarrow> Inl e
      | Inr (c1, outs1) \<Rightarrow>
          (case receive_messages c1 post of
             Inl e \<Rightarrow> Inl e
           | Inr (c2, outs2) \<Rightarrow> Inr (c2, outs1 @ outs2)))"
  by (induction c pre rule: receive_messages.induct)
    (auto split: sum.splits prod.splits)

text \<open>
  C9. A frame that the database knows and the codec decodes is classified by its message
  name into at most one category (\<open>category_of\<close> gives one or none); the new state holds
  the decoded value in that category and, in every other category, the value it held
  before. The database, the bus and the unit of the session are unchanged. This is what
  \<open>receive_messages\<close> does with the frame: a call that receives this frame alone returns
  that state and the one decoded entry; and in any call, when the traffic before the frame
  has left the session in state \<open>c\<close>, the traffic after the frame is processed from that
  new state, with the entry of the frame between the entries of the traffic before and
  after it.
\<close>

theorem receive_frame_updates_one_category:
  assumes "by_frame_id (db c) (arbitration_id msg) = Some m"
    and "decode m (data msg) = Inr decoded"
  shows "\<exists>c'. receive_frame c msg = Inr (c', [(name m, decoded)])
           \<and> (\<forall>cat. cached c' cat =
                 (if category_of (name m) = Some cat then stored cat decoded else cached c cat))
           \<and> db c' = db c \<and> bus c' = bus c
           \<and> dcdc_id c' = dcdc_id c \<and> dcdc_suffix c' = dcdc_suffix c
           \<and> receive_messages c [Inr (Some msg)] = Inr (c', [(name m, decoded)])
           \<and> (\<forall>c0 pre outs0 post.
                 receive_messages c0 pre = Inr (c, outs0) \<longrightarrow>
                 receive_messages c0 (pre @ Inr (Some msg) # post) =
                   (case receive_messages c' post of
                      Inl e \<Rightarrow> Inl e
                    | Inr (c2, outs) \<Rightarrow> Inr (c2, outs0 @ (name m, decoded) # outs)))"
proof -
  let ?c' = "store_decoded (name m) decoded c"
  have 1: "receive_frame c msg = Inr (?c', [(name m, decoded)])"
    using assms by (simp add: receive_frame_def get_message_by_frame_id_def)
  have 2: "cached ?c' cat =
      (if category_of (name m) = Some cat then stored cat decoded else cached c cat)" for cat
    by (cases cat) (simp_all add: store_decoded_def category_of_def)
  have 3: "db ?c' = db c \<and> bus ?c' = bus c
      \<and> dcdc_id ?c' = dcdc_id c \<and> dcdc_suffix ?c' = dcdc_suffix c"
    by (simp add: store_decoded_def)
  have 4: "receive_messages c [Inr (Some msg)] = Inr (?c', [(name m, decoded)])"
    using 1 by simp
  have 5: "receive_messages c0 (pre @ Inr (Some msg) # post) =
      (case receive_messages ?c' post of
         Inl e \<Rightarrow> Inl e
       | Inr (c2, outs) \<Rightarrow> Inr (c2, outs0 @ (name m, decoded) # outs))"
    if "receive_messages c0 pre = Inr (c, outs0)" for c0 pre outs0 post
    using that 1 by (simp add: receive_messages_append split: sum.splits prod.splits)
  from 1 2 3 4 5 show ?thesis by blast
qed

text \<open>
  A voltage frame, alone and between two timeouts of \<open>bus.recv\<close>: the voltage category
  takes the decoded values, the others keep theirs.
\<close>

theorem receive_frame_updates_one_category_witness:
  "category_of ''DCDC_VoltageMeasures'' = Some Voltage
   \<and> (\<exists>c'. receive_frame ex_controller
              \<lparr>arbitration_id = 2148533504, data = [48, 24], is_extended_id = True\<rparr> =
            Inr (c', [(''DCDC_VoltageMeasures'', [''vBus1'' \<mapsto> PyInt 48, ''vBus2'' \<mapsto> PyInt 24])])
          \<and> receive_messages ex_controller
              [Inr None,
               Inr (Some \<lparr>arbitration_id = 2148533504, data = [48, 24], is_extended_id = True\<rparr>),
               Inr None] =
            Inr (c', [(''DCDC_VoltageMeasures'', [''vBus1'' \<mapsto> PyInt 48, ''vBus2'' \<mapsto> PyInt 24])])
          \<and> cached c' Voltage = Decoded [''vBus1'' \<mapsto> PyInt 48, ''vBus2'' \<mapsto> PyInt 24]
          \<and> cached c' Current = cached ex_controller Current
          \<and> cached c' Errors = cached ex_controller Errors
          \<and> cached c' Warnings = Scalar (PyInt 0))"
proof -
  have n: "name ex_voltage_measures = ''DCDC_VoltageMeasures''"
    by (simp add: ex_voltage_measures_def)
  have k: "category_of ''DCDC_VoltageMeasures'' = Some Voltage"
    by (simp add: category_of_def startswith_def)
  have w: "cached ex_controller Warnings = Scalar (PyInt 0)"
    by (simp add: ex_controller_def DCDCController_init_def)
  let ?msg = "\<lparr>arbitration_id = 2148533504, data = [48, 24], is_extended_id = True\<rparr>"
  let ?dec = "[''vBus1'' \<mapsto> PyInt 48, ''vBus2'' \<mapsto> PyInt 24] :: rat signals"
  have h1: "by_frame_id (db ex_controller) (arbitration_id ?msg) = Some ex_voltage_measures"
    by (simp add: ex_controller_simps ex_database_def)
  have h2: "decode ex_voltage_measures (data ?msg) = Inr ?dec"
    by (simp add: ex_voltage_measures_def)
  from receive_frame_updates_one_category [OF h1 h2]
  obtain c' where
    r: "receive_frame ex_controller ?msg = Inr (c', [(''DCDC_VoltageMeasures'', ?dec)])"
    and a: "\<And>cat. cached c' cat =
      (if category_of ''DCDC_VoltageMeasures'' = Some cat then stored cat ?dec
       else cached ex_controller cat)"
    and g: "\<And>c0 pre outs0 post.
      receive_messages c0 pre = Inr (ex_controller, outs0) \<Longrightarrow>
      receive_messages c0 (pre @ Inr (Some ?msg) # post) =
        (case receive_messages c' post of
           Inl e \<Rightarrow> Inl e
         | Inr (c2, outs) \<Rightarrow> Inr (c2, outs0 @ (''DCDC_VoltageMeasures'', ?dec) # outs))"
    unfolding n by blast
  have p: "receive_messages ex_controller [Inr None] = Inr (ex_controller, [])"
    by simp
  have t: "receive_messages ex_controller [Inr None, Inr (Some ?msg), Inr None] =
      Inr (c', [(''DCDC_VoltageMeasures'', ?dec)])"
    using g [OF p, of "[Inr None]"] by simp
  have "cached c' Voltage = Decoded ?dec"
    and "cached c' Current = cached ex_controller Current"
    and "cached c' Errors = cached ex_controller Errors"
    and "cached c' Warnings = Scalar (PyInt 0)"
    unfolding a k w by simp_all
  with r t k show ?thesis by blast
qed

section \<open>Properties of the bus handler\<close>

lemma format_X_small: "n < 16 \<Longrightarrow> format_X n = [''0123456789ABCDEF'' ! n]"
  by (simp add: format_X.simps [of n])

lemma format_X_large:
  "\<not> n < 16 \<Longrightarrow> format_X n = format_X (n div 16) @ [''0123456789ABCDEF'' ! (n mod 16)]"
  by (simp add: format_X.simps [of n])

lemma str_nat_small: "n < 10 \<Longrightarrow> str_nat n = [digit_char n]"
  by (simp add: str_nat.simps [of n])

lemma str_nat_large:
  "\<not> n < 10 \<Longrightarrow> str_nat n = str_nat (n div 10) @ [digit_char (n mod 10)]"
  by (simp add: str_nat.simps [of n])

lemmas render_simps =
  format_X_small format_X_large str_nat_small str_nat_large digit_char_def py_str_def

lemma hex_digit_value:
  assumes "d < 16"
  shows "(let c = ''0123456789ABCDEF'' ! d in
      (if of_char c \<le> (57::nat) then of_char c - 48 else of_char c - 55)) = (d::nat)"
proof -
  from assms have "d \<in> {0,1,2,3,4,5,6,7,8,9,10,11,12,13,14,15}"
    by (simp add: numeral_eq_Suc less_Suc_eq)
  then show ?thesis by auto
qed

lemma format_X_value: "hex_value (format_X n) = n"
proof (induction n rule: format_X.induct)
  case (1 n)
  show ?case
  proof (cases "n < 16")
    case True
    then show ?thesis
      using hex_digit_value [of n] by (simp add: format_X_small hex_value_def Let_def)
  next
    case False
    have m: "n mod 16 < 16" by simp
    from False 1 have "hex_value (format_X (n div 16)) = n div 16" by simp
    then show ?thesis
      using False hex_digit_value [OF m]
      by (simp add: format_X_large hex_value_def Let_def)
  qed
qed

text \<open>
  C10. On a connected handler, a frame whose identifier the loaded database does not
  hold (or that arrives when no database is loaded) is not skipped: \<open>receive_message\<close>
  returns a record whose name is \<open>0x\<close> followed by the upper-case hexadecimal digits of
  the identifier (digits that denote the identifier) and whose decoded data is the empty
  map. The call returns \<open>None\<close> exactly when \<open>bus.recv\<close> returned \<open>None\<close>, that is when the
  timeout expired with no frame.
\<close>

theorem receive_message_unknown_id:
  assumes "handler_bus h = Some b"
    and "handler_db h = None
       \<or> (\<exists>d. handler_db h = Some d \<and> by_frame_id d (arbitration_id message) = None)"
  shows "receive_message h (Inr (Some message)) =
           Inr (Some \<lparr>cm_can_id = arbitration_id message,
                      cm_name = ''0x'' @ format_X (arbitration_id message),
                      cm_data = Map.empty,
                      cm_data_hex = bytes_hex (data message),
                      cm_timestamp = timestamp message\<rparr>)
       \<and> hex_value (format_X (arbitration_id message)) = arbitration_id message
       \<and> (\<forall>rx. (receive_message h rx = Inr None) = (rx = Inr None))"
  using assms
  by (auto simp: receive_message_def get_message_by_frame_id_def format_X_value Let_def
      split: sum.splits option.splits)

text \<open>Identifier 291 is not in the example database; its name is rendered as 0x123.\<close>

theorem receive_message_unknown_id_witness:
  "by_frame_id ex_database 291 = None
   \<and> receive_message \<lparr>handler_bus = Some ex_bus, handler_db = Some ex_database\<rparr>
       (Inr (Some \<lparr>arbitration_id = 291, data = [1, 255], is_extended_id = False,
                    timestamp = (5 :: rat)\<rparr>)) =
     Inr (Some \<lparr>cm_can_id = 291, cm_name = ''0x123'', cm_data = Map.empty,
                cm_data_hex = ''01ff'', cm_timestamp = 5\<rparr>)
   \<and> receive_message \<lparr>handler_bus = Some ex_bus, handler_db = Some ex_database\<rparr>
       (Inr (None :: rat rx_message option)) = Inr None"
proof -
  let ?h = "\<lparr>handler_bus = Some ex_bus, handler_db = Some ex_database\<rparr>"
  let ?m = "\<lparr>arbitration_id = 291, data = [1, 255], is_extended_id = False,
             timestamp = (5 :: rat)\<rparr>"
  have a: "handler_bus ?h = Some ex_bus" by simp
  have k: "by_frame_id ex_database 291 = None" by (simp add: ex_database_def)
  then have b: "handler_db ?h = None
       \<or> (\<exists>d. handler_db ?h = Some d \<and> by_frame_id d (arbitration_id ?m) = None)"
    by simp
  from receive_message_unknown_id [OF a b]
  have r: "receive_message ?h (Inr (Some ?m)) =
           Inr (Some \<lparr>cm_can_id = arbitration_id ?m,
                      cm_name = ''0x'' @ format_X (arbitration_id ?m),
                      cm_data = Map.empty,
                      cm_data_hex = bytes_hex (data ?m),
                      cm_timestamp = timestamp ?m\<rparr>)"
    and n: "\<forall>rx. (receive_message ?h rx = Inr None) = (rx = Inr None)"
    by blast+
  have "receive_message ?h (Inr (None :: rat rx_message option)) = Inr None"
    using n [rule_format, of "Inr None"] by blast
  with r k show ?thesis by (simp add: render_simps bytes_hex_def)
qed

section \<open>Properties of the expansion\<close>

subsection \<open>Evaluation on given text\<close>

lemma py_replace_Nil: "old \<noteq> [] \<Longrightarrow> py_replace [] old new = []"
  by (simp add: py_replace.simps [of "[]"])

lemma py_replace_hit:
  "old \<noteq> [] \<Longrightarrow> startswith (c # cs) old \<Longrightarrow>
     py_replace (c # cs) old new = new @ py_replace (drop (length old) (c # cs)) old new"
  by (simp add: py_replace.simps [of "c # cs"])

lemma py_replace_miss:
  "old \<noteq> [] \<Longrightarrow> \<not> startswith (c # cs) old \<Longrightarrow>
     py_replace (c # cs) old new = c # py_replace cs old new"
  by (simp add: py_replace.simps [of "c # cs"])

lemma py_split_max_numeral:
  "py_split_max (numeral k) s =
     (if dropWhile is_space s = [] then []
      else takeWhile (\<lambda>c. \<not> is_space c) (dropWhile is_space s)
           # py_split_max (pred_numeral k)
               (dropWhile (\<lambda>c. \<not> is_space c) (dropWhile is_space s)))"
  by (simp add: numeral_eq_Suc Let_def)

lemma str_nat_numeral:
  "str_nat (numeral k) =
     (if (numeral k :: nat) < 10 then [digit_char (numeral k)]
      else str_nat (numeral k div 10) @ [digit_char (numeral k mod 10)])"
  by (rule str_nat.simps)

lemma str_nat_digit: "str_nat 0 = ''0''" "str_nat 1 = ''1''" "str_nat (Suc 0) = ''1''"
  by (simp_all add: str_nat_small digit_char_def)

lemma py_str_numeral:
  "py_str (numeral k) = str_nat (numeral k)"
  "py_str 0 = ''0''"
  "py_str 1 = ''1''"
  "py_str (- numeral k) = CHR ''-'' # str_nat (numeral k)"
  by (simp_all add: py_str_def str_nat_digit)

lemmas text_simps =
  py_replace_Nil py_replace_hit py_replace_miss py_split_max_numeral
  str_nat_numeral str_nat_digit py_str_numeral digit_char_def
  startswith_def is_space_def py_split_def py_strip_def py_rstrip_def
  py_index_def is_digit_def int_of_str_def is_sg_def Let_def

lemmas expand_simps =
  text_simps upt_conv_Cons parse_bo_def unit_suffix_def unit_block_def
  expand_bo_def in_dcdc_range_def expand_cm_bo_def expand_cm_sg_def expand_val_def
  expand_other_def emit_def expand_dbc_for_multiple_units_def

subsection \<open>The run over a file, line by line\<close>

lemma emit_Nil: "emit (Inr []) b = b"
  by (simp add: emit_def split: sum.splits)

lemma emit_assoc: "emit (emit a b) c = emit a (emit b c)"
  by (simp add: emit_def split: sum.splits)

lemma takeWhile_before: "\<not> P l \<Longrightarrow> takeWhile P (xs @ l # ys) = takeWhile P xs"
  by (induction xs) simp_all

lemma dropWhile_before: "\<not> P l \<Longrightarrow> dropWhile P (xs @ l # ys) = dropWhile P xs @ l # ys"
  by (induction xs) simp_all

text \<open>
  A line that is not a signal line starts a step of the loop, wherever it stands: the
  lines before it are processed without regard to it and to what follows.
\<close>

lemma expand_lines_append:
  "\<not> is_sg l \<Longrightarrow>
     expand_lines M N (pre @ l # post) = emit (expand_lines M N pre) (expand_lines M N (l # post))"
proof (induction M N pre rule: expand_lines.induct)
  case (1 messages num_units)
  show ?case by (simp add: emit_Nil del: expand_lines.simps(2))
next
  case (2 messages num_units line rest)
  then show ?case
    by (simp add: takeWhile_before dropWhile_before emit_assoc)
qed

lemma startswith_append: "startswith l p \<Longrightarrow> \<exists>r. l = p @ r"
  unfolding startswith_def by (metis append_take_drop_id)

text \<open>
  C7. The node list that the expansion writes does not depend on the unit count, nor on
  the nodes of the original list: wherever the file has a line that starts with \<open>BU_:\<close>,
  the output has in its place the fixed line that names \<open>SUPERVISER\<close>, \<open>DCDC_Primary\<close>
  and the two synthetic nodes \<open>DCDC_Primary_1\<close> and \<open>DCDC_Primary_2\<close>. So for a unit count
  other than 3 the number of synthetic nodes is not the unit count minus one, and a node of
  the original list other than these is lost.
\<close>

theorem node_list_ignores_unit_count:
  assumes "startswith line ''BU_:''"
  shows "expand_dbc_for_multiple_units (pre @ line # post) N =
           (case parse_messages (pre @ line # post) of
              Inl e \<Rightarrow> Inl e
            | Inr M \<Rightarrow>
                emit (expand_lines M N pre)
                  (emit (Inr [''BU_: SUPERVISER DCDC_Primary DCDC_Primary_1 DCDC_Primary_2\<newline>''])
                     (expand_lines M N post)))"
proof -
  from assms obtain r where r: "line = ''BU_:'' @ r"
    by (auto dest: startswith_append)
  then have n: "\<not> is_sg line"
    by (simp add: is_sg_def startswith_def)
  show ?thesis
    unfolding expand_dbc_for_multiple_units_def expand_lines_append [OF n]
    by (simp add: r startswith_def split: sum.splits)
qed

text \<open>
  A list of three nodes, expanded for two units and for four: the output is the same line,
  with two synthetic nodes and without the node \<open>CHARGER\<close>.
\<close>

theorem node_list_ignores_unit_count_witness:
  "startswith ''BU_: SUPERVISER DCDC_Primary CHARGER\<newline>'' ''BU_:''
   \<and> expand_dbc_for_multiple_units [''BU_: SUPERVISER DCDC_Primary CHARGER\<newline>''] 2 =
       Inr [''BU_: SUPERVISER DCDC_Primary DCDC_Primary_1 DCDC_Primary_2\<newline>'']
   \<and> expand_dbc_for_multiple_units [''BU_: SUPERVISER DCDC_Primary CHARGER\<newline>''] 4 =
       Inr [''BU_: SUPERVISER DCDC_Primary DCDC_Primary_1 DCDC_Primary_2\<newline>'']"
  using node_list_ignores_unit_count [of "''BU_: SUPERVISER DCDC_Primary CHARGER\<newline>''" "[]" "[]" 2]
    node_list_ignores_unit_count [of "''BU_: SUPERVISER DCDC_Primary CHARGER\<newline>''" "[]" "[]" 4]
  by (simp add: startswith_def emit_def)

subsection \<open>Message definitions\<close>

lemma parse_messages_append:
  "\<not> is_sg l \<Longrightarrow>
     parse_messages (pre @ l # post) =
       (case parse_messages pre of
          Inl e \<Rightarrow> Inl e
        | Inr a \<Rightarrow> (case parse_messages (l # post) of Inl e \<Rightarrow> Inl e | Inr b \<Rightarrow> Inr (a @ b)))"
proof (induction pre rule: parse_messages.induct)
  case 1
  show ?case by (simp del: parse_messages.simps(2) split: sum.splits)
next
  case (2 line rest)
  then show ?case
    by (simp add: takeWhile_before dropWhile_before split: sum.splits prod.splits)
qed

lemma sg_block:
  assumes "\<forall>s \<in> set sigs. is_sg s" and "post = [] \<or> \<not> is_sg (hd post)"
  shows "takeWhile is_sg (sigs @ post) = sigs" and "dropWhile is_sg (sigs @ post) = post"
proof -
  from assms(2) have p: "takeWhile is_sg post = []" "dropWhile is_sg post = post"
    by (cases post; simp)+
  from assms(1) show "takeWhile is_sg (sigs @ post) = sigs"
    by (simp add: p)
  from assms(1) show "dropWhile is_sg (sigs @ post) = post"
    by (simp add: p)
qed

lemma bo_not_sg:
  assumes "startswith bo ''BO_ ''"
  shows "\<not> is_sg bo"
proof -
  from assms obtain r where "bo = ''BO_ '' @ r"
    by (auto dest: startswith_append)
  then show ?thesis by (simp add: is_sg_def startswith_def)
qed

lemma bo_not_preamble:
  assumes "startswith bo ''BO_ ''"
  shows "\<not> startswith bo ''VERSION''" "\<not> startswith bo ''NS_''" "\<not> startswith bo ''BS_:''"
    "\<not> startswith bo ''BU_:''"
proof -
  from assms obtain r where "bo = ''BO_ '' @ r"
    by (auto dest: startswith_append)
  then show "\<not> startswith bo ''VERSION''" "\<not> startswith bo ''NS_''"
    "\<not> startswith bo ''BS_:''" "\<not> startswith bo ''BU_:''"
    by (simp_all add: startswith_def)
qed

lemma parse_file_at_bo:
  assumes "startswith bo ''BO_ ''"
    and "\<forall>s \<in> set sigs. is_sg s" and "post = [] \<or> \<not> is_sg (hd post)"
    and "parse_messages pre = Inr mp"
    and "parse_bo bo = Inr (can_id, msg_name, dlc, sender)"
    and "parse_messages post = Inr mq"
  shows "parse_messages (pre @ bo # sigs @ post) =
           Inr (mp @ \<lparr>pm_can_id = can_id, pm_name = msg_name, pm_dlc = dlc, pm_sender = sender,
                       pm_signals = sigs, pm_line = bo\<rparr> # mq)"
proof -
  note t = sg_block [OF assms(2,3)]
  have "parse_messages (bo # sigs @ post) =
      Inr (\<lparr>pm_can_id = can_id, pm_name = msg_name, pm_dlc = dlc, pm_sender = sender,
             pm_signals = sigs, pm_line = bo\<rparr> # mq)"
    using assms(1,5,6) by (simp add: t)
  then show ?thesis
    using assms(4) by (simp add: parse_messages_append [OF bo_not_sg [OF assms(1)]])
qed

lemma expand_file_at_bo:
  assumes "startswith bo ''BO_ ''"
    and "\<forall>s \<in> set sigs. is_sg s" and "post = [] \<or> \<not> is_sg (hd post)"
  shows "expand_dbc_for_multiple_units (pre @ bo # sigs @ post) N =
           (case parse_messages (pre @ bo # sigs @ post) of
              Inl e \<Rightarrow> Inl e
            | Inr M \<Rightarrow>
                emit (expand_lines M N pre)
                  (emit (expand_bo M N bo sigs) (expand_lines M N post)))"
proof -
  note t = sg_block [OF assms(2,3)]
  have "expand_lines M N (bo # sigs @ post) =
      emit (expand_bo M N bo sigs) (expand_lines M N post)" for M
    using assms(1) by (simp add: t bo_not_preamble)
  then show ?thesis
    by (simp add: expand_dbc_for_multiple_units_def
        expand_lines_append [OF bo_not_sg [OF assms(1)]] split: sum.splits)
qed

lemma py_replace_same_aux: "new = old \<Longrightarrow> py_replace s old new = s"
proof (induction s old new rule: py_replace.induct)
  case (1 s old new)
  show ?case
  proof (cases "old = []")
    case True
    have "concat (map (\<lambda>c. [c]) s) = s" by (induction s) simp_all
    with True 1(3) show ?thesis by (simp add: py_replace.simps [of s])
  next
    case False
    show ?thesis
    proof (cases "s = []")
      case True
      with False show ?thesis by (simp add: py_replace.simps [of "[]"])
    next
      case ne: False
      show ?thesis
      proof (cases "startswith s old")
        case True
        with False ne 1(1,3) have "py_replace (drop (length old) s) old new = drop (length old) s"
          by simp
        moreover from True have "old @ drop (length old) s = s"
          unfolding startswith_def by (metis append_take_drop_id)
        ultimately show ?thesis
          using False ne True 1(3) by (simp add: py_replace.simps [of s])
      next
        case no: False
        with False ne 1(2,3) have "py_replace (tl s) old new = tl s"
          by simp
        with False ne no show ?thesis by (simp add: py_replace.simps [of s])
      qed
    qed
  qed
qed

lemma py_replace_same: "py_replace s p p = s"
  by (simp add: py_replace_same_aux)

lemma py_in_Nil: "py_in [] s"
  by (cases s) (simp_all add: startswith_def)

lemma py_replace_absent: "\<not> py_in p s \<Longrightarrow> py_replace s p new = s"
proof (induction s)
  case Nil
  then show ?case by (simp add: py_replace.simps [of "[]"])
next
  case (Cons c cs)
  moreover from Cons.prems have "p \<noteq> []" using py_in_Nil by blast
  ultimately show ?case by (simp add: py_replace_miss)
qed


lemma unit_block_uniform:
  "unit_block (Some m) can_id msg_name dlc sender k =
     (''BO_ '' @ py_str (can_id + int k) @ '' '' @ msg_name @ unit_suffix k @ '': '' @ dlc @ '' ''
        @ py_replace sender ''DCDC_Primary'' (''DCDC_Primary'' @ unit_suffix k) @ ''\<newline>'')
     # map (\<lambda>s. py_replace s ''DCDC_Primary'' (''DCDC_Primary'' @ unit_suffix k)) (pm_signals m)
     @ [''\<newline>'']"
proof (cases "k > 0")
  case True
  then show ?thesis
    by (auto simp: unit_block_def unit_suffix_def Let_def py_replace_absent)
next
  case False
  then show ?thesis
    by (simp add: unit_block_def unit_suffix_def Let_def py_replace_same)
qed




lemma signals_are_sg:
  "parse_messages ls = Inr M \<Longrightarrow> m \<in> set M \<Longrightarrow> s \<in> set (pm_signals m) \<Longrightarrow> is_sg s"
proof (induction ls arbitrary: M rule: parse_messages.induct)
  case 1
  then show ?case by simp
next
  case (2 line rest)
  show ?case
  proof (cases "startswith line ''BO_ ''")
    case False
    with 2 show ?thesis by simp
  next
    case True
    with "2.prems"(1) obtain can_id msg_name dlc sender ms where
      b: "parse_bo line = Inr (can_id, msg_name, dlc, sender)"
      and r: "parse_messages (dropWhile is_sg rest) = Inr ms"
      and M: "M = \<lparr>pm_can_id = can_id, pm_name = msg_name, pm_dlc = dlc, pm_sender = sender,
                    pm_signals = takeWhile is_sg rest, pm_line = line\<rparr> # ms"
      by (auto split: sum.splits prod.splits)
    show ?thesis
    proof (cases "m \<in> set ms")
      case True
      from "2.IH"(1) [OF \<open>startswith line ''BO_ ''\<close> b refl refl refl r True "2.prems"(3)]
      show ?thesis .
    next
      case False
      with "2.prems"(2,3) M have "s \<in> set (takeWhile is_sg rest)" by auto
      then show ?thesis by (auto dest: set_takeWhileD)
    qed
  qed
qed

lemma find_member:
  "x \<in> set xs \<Longrightarrow> P x \<Longrightarrow> \<exists>y. find P xs = Some y \<and> y \<in> set xs"
  by (induction xs) auto

lemma renamed_sg_not_bo:
  assumes "is_sg s"
  shows "\<not> startswith (py_replace s ''DCDC_Primary'' new) ''BO_ ''"
proof -
  from assms obtain r where "s = '' SG_'' @ r"
    unfolding is_sg_def by (auto dest: startswith_append)
  then show ?thesis
    by (simp add: py_replace_miss startswith_def)
qed

text \<open>
  A control request sent by the supervisory node, expanded for three units: the
  definition appears three times.
\<close>

theorem supervisory_message_is_multiplied:
  \<open>parse_bo ''BO_ 2148532224 DCDC_ControlRequest: 8 SUPERVISER\<newline>'' =
     Inr (2148532224, ''DCDC_ControlRequest'', ''8'', ''SUPERVISER'')
   \<and> expand_dbc_for_multiple_units
       [''BO_ 2148532224 DCDC_ControlRequest: 8 SUPERVISER\<newline>''] 3 =
     Inr [''BO_ 2148532224 DCDC_ControlRequest: 8 SUPERVISER\<newline>'', ''\<newline>'',
          ''BO_ 2148532225 DCDC_ControlRequest_1: 8 SUPERVISER\<newline>'', ''\<newline>'',
          ''BO_ 2148532226 DCDC_ControlRequest_2: 8 SUPERVISER\<newline>'', ''\<newline>'']\<close>
  by (simp add: expand_simps)

text \<open>
  C5, as the code has it. Let a message definition stand anywhere in the file, followed
  by its signal lines. If its sender contains \<open>DCDC_Primary\<close> or its name contains
  \<open>DCDC\<close>, the expansion for three units writes in its place exactly three definitions,
  with the identifier, the identifier plus 1 and the identifier plus 2 (and the names and
  senders of the units), each followed by lines that are not definitions. If its sender
  does not contain \<open>DCDC_Primary\<close> and its name does not contain \<open>DCDC\<close>, the expansion for
  any number of units writes in its place the definition and its signal lines, once and
  unchanged. A message whose sender is the supervisory node is thus multiplied when its
  name contains \<open>DCDC\<close>.
\<close>

theorem three_definitions_or_one:
  assumes "startswith bo ''BO_ ''"
    and "parse_bo bo = Inr (can_id, msg_name, dlc, sender)"
    and "\<forall>s \<in> set sigs. is_sg s"
    and "post = [] \<or> \<not> is_sg (hd post)"
    and "parse_messages pre = Inr mp"
    and "parse_messages post = Inr mq"
  shows "\<exists>M. parse_messages (pre @ bo # sigs @ post) = Inr M
     \<and> (py_in ''DCDC_Primary'' sender \<or> py_in ''DCDC'' msg_name \<longrightarrow>
          (\<exists>s0 s1 s2.
             expand_dbc_for_multiple_units (pre @ bo # sigs @ post) 3 =
               emit (expand_lines M 3 pre)
                 (emit (Inr ((''BO_ '' @ py_str can_id @ '' '' @ msg_name @ '': '' @ dlc @ '' ''
                                @ sender @ ''\<newline>'') # s0
                             @ (''BO_ '' @ py_str (can_id + 1) @ '' '' @ msg_name @ ''_1: '' @ dlc
                                @ '' '' @ py_replace sender ''DCDC_Primary'' ''DCDC_Primary_1''
                                @ ''\<newline>'') # s1
                             @ (''BO_ '' @ py_str (can_id + 2) @ '' '' @ msg_name @ ''_2: '' @ dlc
                                @ '' '' @ py_replace sender ''DCDC_Primary'' ''DCDC_Primary_2''
                                @ ''\<newline>'') # s2))
                    (expand_lines M 3 post))
             \<and> (\<forall>l \<in> set (s0 @ s1 @ s2). \<not> startswith l ''BO_ '')))
     \<and> (\<not> py_in ''DCDC_Primary'' sender \<and> \<not> py_in ''DCDC'' msg_name \<longrightarrow>
          (\<forall>N. expand_dbc_for_multiple_units (pre @ bo # sigs @ post) N =
                 emit (expand_lines M N pre) (emit (Inr (bo # sigs)) (expand_lines M N post))))"
proof -
  let ?m = "\<lparr>pm_can_id = can_id, pm_name = msg_name, pm_dlc = dlc, pm_sender = sender,
             pm_signals = sigs, pm_line = bo\<rparr>"
  let ?M = "mp @ ?m # mq"
  let ?lines = "pre @ bo # sigs @ post"
  have p: "parse_messages ?lines = Inr ?M"
    using assms(1,3,4,5,2,6) by (rule parse_file_at_bo)
  have e: "expand_dbc_for_multiple_units ?lines N =
      emit (expand_lines ?M N pre) (emit (expand_bo ?M N bo sigs) (expand_lines ?M N post))" for N
    using expand_file_at_bo [OF assms(1,3,4), of pre N] p by simp
  have one: "expand_dbc_for_multiple_units ?lines N =
      emit (expand_lines ?M N pre) (emit (Inr (bo # sigs)) (expand_lines ?M N post))"
    if "\<not> py_in ''DCDC_Primary'' sender \<and> \<not> py_in ''DCDC'' msg_name" for N
    unfolding e using that assms(2) by (simp add: expand_bo_def)
  have three: "\<exists>s0 s1 s2.
      expand_dbc_for_multiple_units ?lines 3 =
        emit (expand_lines ?M 3 pre)
          (emit (Inr ((''BO_ '' @ py_str can_id @ '' '' @ msg_name @ '': '' @ dlc @ '' ''
                         @ sender @ ''\<newline>'') # s0
                      @ (''BO_ '' @ py_str (can_id + 1) @ '' '' @ msg_name @ ''_1: '' @ dlc
                         @ '' '' @ py_replace sender ''DCDC_Primary'' ''DCDC_Primary_1''
                         @ ''\<newline>'') # s1
                      @ (''BO_ '' @ py_str (can_id + 2) @ '' '' @ msg_name @ ''_2: '' @ dlc
                         @ '' '' @ py_replace sender ''DCDC_Primary'' ''DCDC_Primary_2''
                         @ ''\<newline>'') # s2))
             (expand_lines ?M 3 post))
      \<and> (\<forall>l \<in> set (s0 @ s1 @ s2). \<not> startswith l ''BO_ '')"
    if s: "py_in ''DCDC_Primary'' sender \<or> py_in ''DCDC'' msg_name"
  proof -
    have "?m \<in> set ?M" by simp
    then obtain m' where f: "find (\<lambda>msg. pm_can_id msg = can_id) ?M = Some m'"
      and m': "m' \<in> set ?M"
      using find_member [of ?m ?M "\<lambda>msg. pm_can_id msg = can_id"] by auto
    have sg: "is_sg x" if "x \<in> set (pm_signals m')" for x
      using signals_are_sg [OF p m' that] .
    let ?s = "\<lambda>new. map (\<lambda>x. py_replace x ''DCDC_Primary'' new) (pm_signals m') @ [''\<newline>'']"
    have n: "\<not> startswith l ''BO_ ''" if "l \<in> set (?s new)" for l new
      using that sg by (auto simp: renamed_sg_not_bo) (simp add: startswith_def)
    have u: "[0..<3] = [0, 1, 2]" by (simp add: upt_conv_Cons)
    have x: "unit_suffix 0 = []" "unit_suffix (Suc 0) = ''_1''" "unit_suffix 2 = ''_2''"
      by (simp_all add: unit_suffix_def py_str_numeral str_nat_numeral digit_char_def)
    have b: "expand_bo ?M 3 bo sigs =
        Inr ((''BO_ '' @ py_str can_id @ '' '' @ msg_name @ '': '' @ dlc @ '' ''
                @ sender @ ''\<newline>'') # ?s ''DCDC_Primary''
             @ (''BO_ '' @ py_str (can_id + 1) @ '' '' @ msg_name @ ''_1: '' @ dlc
                @ '' '' @ py_replace sender ''DCDC_Primary'' ''DCDC_Primary_1''
                @ ''\<newline>'') # ?s ''DCDC_Primary_1''
             @ (''BO_ '' @ py_str (can_id + 2) @ '' '' @ msg_name @ ''_2: '' @ dlc
                @ '' '' @ py_replace sender ''DCDC_Primary'' ''DCDC_Primary_2''
                @ ''\<newline>'') # ?s ''DCDC_Primary_2'')"
      using s assms(2) f
      by (simp add: expand_bo_def u unit_block_uniform x py_replace_same)
    have nb: "\<forall>l \<in> set (?s ''DCDC_Primary'' @ ?s ''DCDC_Primary_1'' @ ?s ''DCDC_Primary_2'').
        \<not> startswith l ''BO_ ''"
      using n by (metis Un_iff set_append)
    show ?thesis
      unfolding e b
      by (rule exI [of _ "?s ''DCDC_Primary''"], rule exI [of _ "?s ''DCDC_Primary_1''"],
          rule exI [of _ "?s ''DCDC_Primary_2''"]) (intro conjI refl nb)
  qed
  from p one three show ?thesis by blast
qed

text \<open>
  A file of two messages, expanded for three units: the voltage measures, sent by
  \<open>DCDC_Primary\<close>, give three definitions; the heartbeat, sent by \<open>SUPERVISER\<close> and named
  without \<open>DCDC\<close>, is written once with its signal line, whose receiver is left as it is.
\<close>

theorem three_definitions_or_one_witness:
  \<open>parse_bo ''BO_ 2148533504 DCDC_VoltageMeasures: 8 DCDC_Primary\<newline>'' =
     Inr (2148533504, ''DCDC_VoltageMeasures'', ''8'', ''DCDC_Primary'')
   \<and> py_in ''DCDC_Primary'' ''DCDC_Primary''
   \<and> parse_bo ''BO_ 256 Heartbeat: 1 SUPERVISER\<newline>'' =
     Inr (256, ''Heartbeat'', ''1'', ''SUPERVISER'')
   \<and> \<not> py_in ''DCDC_Primary'' ''SUPERVISER'' \<and> \<not> py_in ''DCDC'' ''Heartbeat''
   \<and> expand_dbc_for_multiple_units
       [''BO_ 2148533504 DCDC_VoltageMeasures: 8 DCDC_Primary\<newline>'',
        '' SG_ vBus1 : 0|16@1+ (0.1,0) [0|0] "V" SUPERVISER\<newline>'',
        ''BO_ 256 Heartbeat: 1 SUPERVISER\<newline>'',
        '' SG_ alive : 0|1@1+ (1,0) [0|1] "" DCDC_Primary\<newline>''] 3 =
     Inr [''BO_ 2148533504 DCDC_VoltageMeasures: 8 DCDC_Primary\<newline>'',
          '' SG_ vBus1 : 0|16@1+ (0.1,0) [0|0] "V" SUPERVISER\<newline>'',
          ''\<newline>'',
          ''BO_ 2148533505 DCDC_VoltageMeasures_1: 8 DCDC_Primary_1\<newline>'',
          '' SG_ vBus1 : 0|16@1+ (0.1,0) [0|0] "V" SUPERVISER\<newline>'',
          ''\<newline>'',
          ''BO_ 2148533506 DCDC_VoltageMeasures_2: 8 DCDC_Primary_2\<newline>'',
          '' SG_ vBus1 : 0|16@1+ (0.1,0) [0|0] "V" SUPERVISER\<newline>'',
          ''\<newline>'',
          ''BO_ 256 Heartbeat: 1 SUPERVISER\<newline>'',
          '' SG_ alive : 0|1@1+ (1,0) [0|1] "" DCDC_Primary\<newline>'']\<close>
  using three_definitions_or_one
    [of \<open>''BO_ 2148533504 DCDC_VoltageMeasures: 8 DCDC_Primary\<newline>''\<close>
        2148533504 \<open>''DCDC_VoltageMeasures''\<close> \<open>''8''\<close> \<open>''DCDC_Primary''\<close>
        \<open>['' SG_ vBus1 : 0|16@1+ (0.1,0) [0|0] "V" SUPERVISER\<newline>'']\<close>
        \<open>[''BO_ 256 Heartbeat: 1 SUPERVISER\<newline>'',
          '' SG_ alive : 0|1@1+ (1,0) [0|1] "" DCDC_Primary\<newline>'']\<close>
        \<open>[]\<close> \<open>[]\<close>
        \<open>[\<lparr>pm_can_id = 256, pm_name = ''Heartbeat'', pm_dlc = ''1'', pm_sender = ''SUPERVISER'',
           pm_signals = ['' SG_ alive : 0|1@1+ (1,0) [0|1] "" DCDC_Primary\<newline>''],
           pm_line = ''BO_ 256 Heartbeat: 1 SUPERVISER\<newline>''\<rparr>]\<close>]
    three_definitions_or_one
    [of \<open>''BO_ 256 Heartbeat: 1 SUPERVISER\<newline>''\<close>
        256 \<open>''Heartbeat''\<close> \<open>''1''\<close> \<open>''SUPERVISER''\<close>
        \<open>['' SG_ alive : 0|1@1+ (1,0) [0|1] "" DCDC_Primary\<newline>'']\<close>
        \<open>[]\<close>
        \<open>[''BO_ 2148533504 DCDC_VoltageMeasures: 8 DCDC_Primary\<newline>'',
          '' SG_ vBus1 : 0|16@1+ (0.1,0) [0|0] "V" SUPERVISER\<newline>'']\<close>
        \<open>[\<lparr>pm_can_id = 2148533504, pm_name = ''DCDC_VoltageMeasures'', pm_dlc = ''8'',
           pm_sender = ''DCDC_Primary'',
           pm_signals = ['' SG_ vBus1 : 0|16@1+ (0.1,0) [0|0] "V" SUPERVISER\<newline>''],
           pm_line = ''BO_ 2148533504 DCDC_VoltageMeasures: 8 DCDC_Primary\<newline>''\<rparr>]\<close>
        \<open>[]\<close>]
  by (simp add: expand_simps)

subsection \<open>Comments, attributes and value tables\<close>




























end
